theory Spec2Isabelle
  imports Main "HOL-Library.Word"
begin

section \<open>xprintidle: machine types\<close>

text \<open>
  The program is C on an LP64 platform: \<open>int\<close> and \<open>unsigned\<close> are 32 bits wide,
  \<open>unsigned long\<close> and \<open>uint64_t\<close> are 64 bits wide, the X protocol type \<open>CARD16\<close> is an
  unsigned 16-bit integer and \<open>BOOL\<close> is an unsigned 8-bit integer. Arithmetic on words
  wraps; where C leaves a signed overflow undefined, the theorems below show that the word
  result read by \<open>sint\<close> is the mathematical value, so that no overflow takes place.
\<close>

type_synonym c_int = "32 word"
type_synonym c_unsigned = "32 word"
type_synonym c_ulong = "64 word"
type_synonym CARD16 = "16 word"
type_synonym BOOL = "8 word"

text \<open>The conversions C inserts in the expressions of the program.\<close>

definition promote :: "CARD16 \<Rightarrow> c_int" where
  \<comment> \<open>integer promotion of a \<open>CARD16\<close> operand to \<open>int\<close>\<close>
  "promote c = ucast c"

definition to_unsigned :: "c_int \<Rightarrow> c_unsigned" where
  \<comment> \<open>the cast \<open>(unsigned)\<close>: the same 32 bits\<close>
  "to_unsigned i = i"

definition unsigned_to_ulong :: "c_unsigned \<Rightarrow> c_ulong" where
  \<comment> \<open>usual arithmetic conversion of an \<open>unsigned\<close> operand compared with an
      \<open>unsigned long\<close>: zero extension\<close>
  "unsigned_to_ulong u = ucast u"

definition int_to_ulong :: "c_int \<Rightarrow> c_ulong" where
  \<comment> \<open>conversion of the \<open>int\<close> right operand of \<open>+=\<close> to \<open>unsigned long\<close>:
      sign extension\<close>
  "int_to_ulong i = scast i"

section \<open>The display and its DPMS state\<close>

text \<open>
  The mode constants of the X11 header \<open>X11/extensions/dpmsconst.h\<close>, which the program
  includes through \<open>dpms.h\<close>.
\<close>

definition DPMSModeOn :: CARD16 where "DPMSModeOn = 0"
definition DPMSModeStandby :: CARD16 where "DPMSModeStandby = 1"
definition DPMSModeSuspend :: CARD16 where "DPMSModeSuspend = 2"
definition DPMSModeOff :: CARD16 where "DPMSModeOff = 3"

text \<open>
  What an open display answers to the requests the program sends. The two screen saver
  requests and the two DPMS tests can fail; \<open>DPMSGetTimeouts\<close> and \<open>DPMSInfo\<close> fill the
  variables \<open>standby\<close>, \<open>suspend\<close>, \<open>off\<close>, \<open>state\<close> and \<open>onoff\<close> of the caller. The
  program does not look at the return values of these two; the model covers the
  executions in which they fill the variables, as they do on a capable server.
\<close>

record display =
  XScreenSaverQueryExtension :: bool
  XScreenSaverQueryInfo :: "c_ulong option"  \<comment> \<open>\<open>Some\<close> the field \<open>ssi->idle\<close>, \<open>None\<close> on failure\<close>
  VendorRelease :: c_int
  DPMSQueryExtension :: bool
  DPMSCapable :: bool
  DPMSGetTimeouts :: "CARD16 \<times> CARD16 \<times> CARD16"  \<comment> \<open>standby, suspend, off\<close>
  DPMSInfo :: "CARD16 \<times> BOOL"  \<comment> \<open>state, onoff\<close>

section \<open>workaroundCreepyXServer\<close>

definition workaroundCreepyXServer :: "display \<Rightarrow> c_ulong \<Rightarrow> c_ulong" where
  "workaroundCreepyXServer dpy idleTime =
     (if \<not> DPMSQueryExtension dpy then idleTime
      else if \<not> DPMSCapable dpy then idleTime
      else
        let (standby, suspend, off) = DPMSGetTimeouts dpy;
            (state, onoff) = DPMSInfo dpy
        in
          if onoff = 0 then idleTime
          else if state = DPMSModeStandby then
            (if idleTime < unsigned_to_ulong (to_unsigned (promote standby * 1000))
             then idleTime + int_to_ulong (promote standby * 1000)
             else idleTime)
          else if state = DPMSModeSuspend then
            (if idleTime < unsigned_to_ulong (to_unsigned ((promote suspend + promote standby) * 1000))
             then idleTime + int_to_ulong ((promote suspend + promote standby) * 1000)
             else idleTime)
          else if state = DPMSModeOff then
            (if idleTime <
                  unsigned_to_ulong (to_unsigned ((promote off + promote suspend + promote standby) * 1000))
             then idleTime + int_to_ulong ((promote off + promote suspend + promote standby) * 1000)
             else idleTime)
          else idleTime)"

section \<open>Effects\<close>

text \<open>
  The world outside the process: \<open>XOpenDisplay(NULL)\<close> yields a display or \<open>NULL\<close>, and
  \<open>XScreenSaverAllocInfo()\<close> yields a structure or \<open>NULL\<close>.
\<close>

record world =
  XOpenDisplay :: "display option"
  XScreenSaverAllocInfo :: bool

text \<open>
  What the process does to the world is recorded as a trace, in program order: the calls
  that acquire and release the connection handle and the info structure (with the outcome
  of each acquisition), and every text written to \<open>stdout\<close> and \<open>stderr\<close>.
\<close>

datatype event =
    Open_display bool     \<comment> \<open>\<open>XOpenDisplay\<close> was called; \<open>True\<close> when it returned a handle\<close>
  | Close_display         \<comment> \<open>\<open>XCloseDisplay(dpy)\<close>\<close>
  | Alloc_info bool       \<comment> \<open>\<open>XScreenSaverAllocInfo\<close> was called; \<open>True\<close> when not \<open>NULL\<close>\<close>
  | Free_info             \<comment> \<open>\<open>XFree(ssi)\<close>\<close>
  | Print_stdout string
  | Print_stderr string

fun stdout_of :: "event list \<Rightarrow> string" where
  "stdout_of [] = []"
| "stdout_of (Print_stdout s # es) = s @ stdout_of es"
| "stdout_of (_ # es) = stdout_of es"

fun stderr_of :: "event list \<Rightarrow> string" where
  "stderr_of [] = []"
| "stderr_of (Print_stderr s # es) = s @ stderr_of es"
| "stderr_of (_ # es) = stderr_of es"

text \<open>
  The number of connection handles held after a trace that starts with \<open>n\<close> handles held.
  Closing when none is held is not counted as a release.
\<close>

fun handles_held :: "nat \<Rightarrow> event list \<Rightarrow> nat" where
  "handles_held n [] = n"
| "handles_held n (Open_display True # es) = handles_held (Suc n) es"
| "handles_held n (Close_display # es) = handles_held (n - 1) es"
| "handles_held n (_ # es) = handles_held n es"

section \<open>Printing numbers\<close>

definition digit_char :: "nat \<Rightarrow> char" where
  "digit_char d = ''0123456789'' ! d"

function string_of_nat :: "nat \<Rightarrow> string" where
  "string_of_nat n =
     (if n < 10 then [digit_char n] else string_of_nat (n div 10) @ [digit_char (n mod 10)])"
  by pat_completeness auto
termination
  by (relation "measure id") auto

definition printf_d :: "c_int \<Rightarrow> string" where
  \<comment> \<open>the conversion \<open>%d\<close>\<close>
  "printf_d i = (if sint i < 0 then ''-'' @ string_of_nat (nat (- sint i))
                 else string_of_nat (nat (sint i)))"

definition printf_llu :: "c_ulong \<Rightarrow> string" where
  \<comment> \<open>the conversion \<open>%llu\<close>\<close>
  "printf_llu u = string_of_nat (unat u)"

section \<open>print_usage and print_version\<close>

definition XPRINTIDLE_VERSION :: string where
  \<comment> \<open>set by \<open>meson.build\<close> to the project version\<close>
  "XPRINTIDLE_VERSION = ''0.3.0''"

definition print_usage :: "string \<Rightarrow> event list" where
  "print_usage name =
     [Print_stdout (
        ''usage: '' @ name @ '' [OPTION]\<newline>'' @
        ''Query the X server for the user's idle time\<newline>'' @
        ''\<newline>'' @
        ''Options:\<newline>'' @
        ''  -h, --help              Show this text\<newline>'' @
        ''  -H, --human-readable    Output the time in a human readable format\<newline>'' @
        ''  -v, --version           Print the program version\<newline>'' @
        ''\<newline>'' @
        ''Report bugs at: https://github.com/g0hl1n/xprintidle/issues\<newline>'' @
        ''Written by Magnus Henoch and others; see\<newline>'' @
        ''https://github.com/g0hl1n/xprintidle/blob/master/AUTHORS\<newline>'')]"

definition print_version :: "event list" where
  "print_version = [Print_stdout (''xprintidle '' @ XPRINTIDLE_VERSION @ ''\<newline>'')]"

section \<open>get_x_idletime\<close>

text \<open>
  The result pairs the trace with the outcome: \<open>Some v\<close> is the return value 0 with
  \<open>*idle = v\<close>, \<open>None\<close> is the return value -1 (with \<open>*idle\<close> untouched).
\<close>

definition get_x_idletime :: "world \<Rightarrow> event list \<times> c_ulong option" where
  "get_x_idletime w =
     (case XOpenDisplay w of
        None \<Rightarrow> ([Open_display False, Print_stderr ''couldn't open display\<newline>''], None)
      | Some dpy \<Rightarrow>
          if \<not> XScreenSaverQueryExtension dpy then
            ([Open_display True,
              Print_stderr ''screen saver extension not supported\<newline>'',
              Close_display], None)
          else if \<not> XScreenSaverAllocInfo w then
            ([Open_display True, Alloc_info False,
              Print_stderr ''couldn't allocate screen saver info\<newline>'',
              Close_display], None)
          else
            (case XScreenSaverQueryInfo dpy of
               None \<Rightarrow>
                 ([Open_display True, Alloc_info True,
                   Print_stderr ''couldn't query screen saver info\<newline>'',
                   Free_info, Close_display], None)
             | Some ssi_idle \<Rightarrow>
                 let vendrel = VendorRelease dpy;
                     idle = (if vendrel <s 12000000
                             then workaroundCreepyXServer dpy ssi_idle
                             else ssi_idle)
                 in ([Open_display True, Alloc_info True, Free_info, Close_display],
                     Some idle)))"

section \<open>print_human_time\<close>

definition convFacs :: "c_int list" where
  "convFacs = [24 * 60 * 60 * 1000, 60 * 60 * 1000, 60 * 1000, 1000, 1]"

definition names :: "string list" where
  "names = [''day'', ''hour'', ''minute'', ''second'', ''millisecond'']"

definition units :: nat where
  "units = length convFacs"

text \<open>
  The body of the \<open>for\<close> loop, from index \<open>i\<close> on, as a function of the loop's variables
  \<open>time\<close> and \<open>firstPrint\<close>; it returns what the loop prints and the final \<open>firstPrint\<close>.
  In \<open>time / convFacs[i]\<close> and \<open>time %= convFacs[i]\<close> the \<open>int\<close> divisor is converted to
  the 64-bit unsigned type of \<open>time\<close>. The initialisation \<open>int unitMag = ...\<close> converts the
  64-bit quotient to \<open>int\<close>; where it does not fit, the conversion is
  implementation-defined, and GCC and Clang keep the low 32 bits.
\<close>

function print_human_loop :: "nat \<Rightarrow> c_ulong \<Rightarrow> bool \<Rightarrow> string \<times> bool" where
  "print_human_loop i time firstPrint =
     (if i < units then
        let unitMag = (ucast (time div int_to_ulong (convFacs ! i)) :: c_int);
            time' = time mod int_to_ulong (convFacs ! i)
        in
          if unitMag = 0 then print_human_loop (i + 1) time' firstPrint
          else
            let printed = (if \<not> firstPrint then '', '' else []) @
                          printf_d unitMag @ '' '' @ names ! i @
                          (if unitMag \<noteq> 1 then ''s'' else []);
                (rest, firstPrint') = print_human_loop (i + 1) time' False
            in (printed @ rest, firstPrint')
      else ([], firstPrint))"
  by pat_completeness auto
termination
  by (relation "measure (\<lambda>(i, time, firstPrint). units - i)") auto

definition print_human_time :: "c_ulong \<Rightarrow> event list" where
  "print_human_time time =
     (let (printed, firstPrint) = print_human_loop 0 time True
      in [Print_stdout (printed @
                        (if firstPrint then ''0 '' @ names ! (units - 1) @ ''s'' else []) @
                        ''\<newline>'')])"

section \<open>main\<close>

definition EXIT_SUCCESS :: int where "EXIT_SUCCESS = 0"
definition EXIT_FAILURE :: int where "EXIT_FAILURE = 1"

text \<open>The part of \<open>main\<close> after the option block, as a function of the flag \<open>human\<close>.\<close>

definition main_query :: "world \<Rightarrow> bool \<Rightarrow> event list \<times> int" where
  "main_query w human =
     (case get_x_idletime w of
        (tr, None) \<Rightarrow> (tr, EXIT_FAILURE)
      | (tr, Some idle) \<Rightarrow>
          if human then (tr @ print_human_time idle, EXIT_SUCCESS)
          else (tr @ [Print_stdout (printf_llu idle @ ''\<newline>'')], EXIT_SUCCESS))"

text \<open>
  \<open>argv\<close> is the list of the \<open>argc\<close> arguments, the program name first. With an empty
  list (\<open>argc = 0\<close>) the program reads \<open>argv[1]\<close> past the terminating null pointer of the
  array: the behaviour is undefined, which is the result \<open>None\<close>. Otherwise the result is
  the trace and the exit status.
\<close>

definition main :: "world \<Rightarrow> string list \<Rightarrow> (event list \<times> int) option" where
  "main w argv =
     (let argc = length argv in
      if argc \<noteq> 1 then
        if argc = 0 then None
        else if argv ! 1 = ''-v'' \<or> argv ! 1 = ''--version'' then
          Some (print_version, EXIT_SUCCESS)
        else if argv ! 1 = ''-H'' \<or> argv ! 1 = ''--human-readable'' then
          Some (main_query w True)
        else if argv ! 1 = ''-h'' \<or> argv ! 1 = ''--help'' then
          Some (print_usage (argv ! 0), EXIT_FAILURE)
        else Some (main_query w False)
      else Some (main_query w False))"

section \<open>The corrector as the specification words it\<close>

text \<open>
  A second definition, written from the specification's description of the Idle Time
  Corrector (data model and component design) and not from the code, over mathematical
  integers: the DPMS snapshot with its capability, enabled flag, mode and the three
  timeouts in seconds, and the correction that adds the cumulative threshold of the
  current mode when the raw idle value is below it.
\<close>

datatype dpms_mode = Mode_On | Mode_Standby | Mode_Suspend | Mode_Off | Mode_Unrecognized

record dpms_state =
  capable :: bool
  enabled :: bool
  mode :: dpms_mode
  standby_seconds :: int
  suspend_seconds :: int
  off_seconds :: int

definition add_if_below :: "int \<Rightarrow> int \<Rightarrow> int" where
  "add_if_below threshold raw_idle_ms =
     (if raw_idle_ms < threshold then raw_idle_ms + threshold else raw_idle_ms)"

definition correct_idle :: "dpms_state \<Rightarrow> int \<Rightarrow> int" where
  "correct_idle s raw_idle_ms =
     (if \<not> capable s then raw_idle_ms
      else if \<not> enabled s then raw_idle_ms
      else case mode s of
        Mode_On \<Rightarrow> raw_idle_ms
      | Mode_Standby \<Rightarrow> add_if_below (standby_seconds s * 1000) raw_idle_ms
      | Mode_Suspend \<Rightarrow>
          add_if_below ((suspend_seconds s + standby_seconds s) * 1000) raw_idle_ms
      | Mode_Off \<Rightarrow>
          add_if_below ((off_seconds s + suspend_seconds s + standby_seconds s) * 1000)
            raw_idle_ms
      | Mode_Unrecognized \<Rightarrow> raw_idle_ms)"

text \<open>
  The snapshot a display stands for: it is capable when both the extension query and the
  capability test succeed, enabled when \<open>onoff\<close> is not zero, and its mode is the one the
  state code names, if any.
\<close>

definition mode_of :: "CARD16 \<Rightarrow> dpms_mode" where
  "mode_of state =
     (if state = DPMSModeOn then Mode_On
      else if state = DPMSModeStandby then Mode_Standby
      else if state = DPMSModeSuspend then Mode_Suspend
      else if state = DPMSModeOff then Mode_Off
      else Mode_Unrecognized)"

definition snapshot :: "display \<Rightarrow> dpms_state" where
  "snapshot dpy =
     (let (standby, suspend, off) = DPMSGetTimeouts dpy;
          (state, onoff) = DPMSInfo dpy
      in \<lparr>capable = DPMSQueryExtension dpy \<and> DPMSCapable dpy,
          enabled = (onoff \<noteq> 0),
          mode = mode_of state,
          standby_seconds = uint standby,
          suspend_seconds = uint suspend,
          off_seconds = uint off\<rparr>)"

text \<open>
  The cumulative threshold of the snapshot's current mode, in milliseconds; zero where the
  specification applies no correction.
\<close>

definition cumulative_threshold :: "dpms_state \<Rightarrow> int" where
  "cumulative_threshold s =
     (if capable s \<and> enabled s then
        case mode s of
          Mode_Standby \<Rightarrow> standby_seconds s * 1000
        | Mode_Suspend \<Rightarrow> (suspend_seconds s + standby_seconds s) * 1000
        | Mode_Off \<Rightarrow> (off_seconds s + suspend_seconds s + standby_seconds s) * 1000
        | _ \<Rightarrow> 0
      else 0)"

section \<open>Human-readable formatting as the specification words it\<close>

text \<open>
  Written from the specification's description of the output formatting: the duration is
  decomposed by truncating division with the divisors 86400000, 3600000, 60000, 1000
  and 1, each divisor applied to what the previous ones left; the components that are
  not zero are printed, separated by a comma and a space, each with its unit label, in
  the plural unless the magnitude is 1; when every component is zero the text is
  \<open>0 milliseconds\<close>. The line ends with a newline.
\<close>

fun decompose :: "nat \<Rightarrow> nat list \<Rightarrow> nat list" where
  "decompose ms [] = []"
| "decompose ms (d # ds) = ms div d # decompose (ms mod d) ds"

definition component_text :: "nat \<times> string \<Rightarrow> string" where
  "component_text c =
     (case c of (magnitude, unit_label) \<Rightarrow>
        string_of_nat magnitude @ '' '' @ unit_label @ (if magnitude = 1 then [] else ''s''))"

fun comma_separated :: "string list \<Rightarrow> string" where
  "comma_separated [] = []"
| "comma_separated [x] = x"
| "comma_separated (x # y # ys) = x @ '', '' @ comma_separated (y # ys)"

definition human_readable_spec :: "nat \<Rightarrow> string" where
  "human_readable_spec ms =
     (let components =
            zip (decompose ms [86400000, 3600000, 60000, 1000, 1])
                [''day'', ''hour'', ''minute'', ''second'', ''millisecond''];
          shown = filter (\<lambda>c. fst c \<noteq> 0) components
      in (if shown = [] then ''0 milliseconds''
          else comma_separated (map component_text shown)) @ ''\<newline>'')"

text \<open>
  The same text for a part of the component list, given whether nothing has been shown
  so far, together with whether nothing has been shown afterwards; it states what the
  loop of the program has done after some of its iterations.
\<close>

definition shown_text :: "bool \<Rightarrow> (nat \<times> string) list \<Rightarrow> string \<times> bool" where
  "shown_text firstPrint components =
     (let shown = filter (\<lambda>c. fst c \<noteq> 0) components
      in ((if shown = [] then []
           else (if firstPrint then [] else '', '') @
                comma_separated (map component_text shown)),
          firstPrint \<and> shown = []))"

section \<open>A sample display\<close>

text \<open>
  A server older than the fixed release, in DPMS standby with timeouts of 5, 10 and 20
  seconds, reporting 2000 milliseconds of idle time; used to instantiate the theorems.
\<close>

definition sample_display :: display where
  "sample_display =
     \<lparr>XScreenSaverQueryExtension = True,
      XScreenSaverQueryInfo = Some 2000,
      VendorRelease = 11999999,
      DPMSQueryExtension = True,
      DPMSCapable = True,
      DPMSGetTimeouts = (5, 10, 20),
      DPMSInfo = (DPMSModeStandby, 1)\<rparr>"

definition sample_world :: world where
  "sample_world = \<lparr>XOpenDisplay = Some sample_display, XScreenSaverAllocInfo = True\<rparr>"

declare string_of_nat.simps [simp del]
declare print_human_loop.simps [simp del]

section \<open>Arithmetic of the thresholds\<close>

lemma uint_promote: "uint (promote c) = uint c"
  by (simp add: promote_def uint_up_ucast is_up)

lemma uint_CARD16_bound: "uint (c :: CARD16) < 65536"
  using uint_bounded [of c] by simp

lemma uint_standby_ms: "uint (promote a * 1000) = uint a * 1000"
proof -
  have "uint a * 1000 < 2 ^ 32" "0 \<le> uint a"
    using uint_CARD16_bound [of a] by simp_all
  then show ?thesis
    by (simp add: uint_word_ariths uint_promote take_bit_int_eq_self flip: take_bit_eq_mod)
qed

lemma uint_suspend_sum: "uint (promote b + promote a) = uint b + uint a"
proof -
  have "uint b + uint a < 2 ^ 32" "0 \<le> uint a" "0 \<le> uint b"
    using uint_CARD16_bound [of a] uint_CARD16_bound [of b] by simp_all
  then show ?thesis
    by (simp add: uint_word_ariths uint_promote take_bit_int_eq_self flip: take_bit_eq_mod)
qed

lemma uint_suspend_ms: "uint ((promote b + promote a) * 1000) = (uint b + uint a) * 1000"
proof -
  have "(uint b + uint a) * 1000 < 2 ^ 32" "0 \<le> uint a" "0 \<le> uint b"
    using uint_CARD16_bound [of a] uint_CARD16_bound [of b] by simp_all
  then show ?thesis
    by (simp add: uint_word_ariths uint_promote mod_simps take_bit_int_eq_self
             flip: take_bit_eq_mod)
qed

lemma uint_off_sum: "uint (promote c + promote b + promote a) = uint c + uint b + uint a"
proof -
  have "uint c + uint b + uint a < 2 ^ 32" "0 \<le> uint a" "0 \<le> uint b" "0 \<le> uint c"
    using uint_CARD16_bound [of a] uint_CARD16_bound [of b] uint_CARD16_bound [of c]
    by simp_all
  then show ?thesis
    by (simp add: uint_word_ariths uint_promote mod_simps take_bit_int_eq_self
             flip: take_bit_eq_mod)
qed

lemma uint_off_ms:
  "uint ((promote c + promote b + promote a) * 1000) = (uint c + uint b + uint a) * 1000"
proof -
  have "(uint c + uint b + uint a) * 1000 < 2 ^ 32" "0 \<le> uint a" "0 \<le> uint b" "0 \<le> uint c"
    using uint_CARD16_bound [of a] uint_CARD16_bound [of b] uint_CARD16_bound [of c]
    by simp_all
  then show ?thesis
    by (simp add: uint_word_ariths uint_promote mod_simps take_bit_int_eq_self
             flip: take_bit_eq_mod)
qed

lemma sint_small: "uint (w :: c_int) < 2 ^ 31 \<Longrightarrow> sint w = uint w"
proof -
  assume a: "uint w < 2 ^ 31"
  have "- (2 ^ 31) \<le> uint w" by (rule order_trans [of _ 0]) simp_all
  with a show ?thesis
    by (simp add: sint_uint signed_take_bit_int_eq_self)
qed

lemma int_to_ulong_small: "uint (w :: c_int) < 2 ^ 31 \<Longrightarrow> uint (int_to_ulong w) = uint w"
proof -
  assume a: "uint w < 2 ^ 31"
  have "uint w < 2 ^ 64" using a by simp
  then show ?thesis using a
    by (simp add: int_to_ulong_def scast_eq sint_small uint_word_of_int_eq
                  take_bit_int_eq_self uint_up_ucast is_up)
qed

lemma unsigned_to_ulong_uint: "uint (unsigned_to_ulong (to_unsigned w)) = uint w"
  by (simp add: unsigned_to_ulong_def to_unsigned_def uint_up_ucast is_up)

text \<open>
  The guarded addition of the three \<open>case\<close> branches: with the threshold below
  \<open>2 ^ 31\<close>, the comparison and the sum on 64-bit words are those on the integers.
\<close>

lemma guarded_add:
  fixes idleTime :: c_ulong and e :: c_int
  assumes "uint e \<le> 196605000"
  shows "uint (if idleTime < unsigned_to_ulong (to_unsigned e)
               then idleTime + int_to_ulong e else idleTime)
         = add_if_below (uint e) (uint idleTime)"
proof -
  have e31: "uint e < 2 ^ 31" using assms by simp
  have lt: "idleTime < unsigned_to_ulong (to_unsigned e) \<longleftrightarrow> uint idleTime < uint e"
    by (simp add: word_less_def unsigned_to_ulong_uint)
  have "uint (idleTime + int_to_ulong e) = uint idleTime + uint e"
    if "uint idleTime < uint e"
  proof -
    have "uint idleTime + uint e < 2 ^ 64" using that assms by simp
    then show ?thesis
      by (simp add: uint_word_ariths int_to_ulong_small [OF e31] take_bit_int_eq_self
               flip: take_bit_eq_mod)
  qed
  with lt show ?thesis by (simp add: add_if_below_def)
qed

lemma standby_ms_le: "uint (promote a * 1000) \<le> 196605000"
  using uint_CARD16_bound [of a] by (simp add: uint_standby_ms)

lemma suspend_ms_le: "uint ((promote b + promote a) * 1000) \<le> 196605000"
  using uint_CARD16_bound [of a] uint_CARD16_bound [of b]
  unfolding uint_suspend_ms by simp

lemma off_ms_le: "uint ((promote c + promote b + promote a) * 1000) \<le> 196605000"
  using uint_CARD16_bound [of a] uint_CARD16_bound [of b] uint_CARD16_bound [of c]
  unfolding uint_off_ms by simp

lemma mode_consts_distinct:
  "DPMSModeStandby \<noteq> DPMSModeOn" "DPMSModeSuspend \<noteq> DPMSModeOn"
  "DPMSModeOff \<noteq> DPMSModeOn" "DPMSModeSuspend \<noteq> DPMSModeStandby"
  "DPMSModeOff \<noteq> DPMSModeStandby" "DPMSModeOff \<noteq> DPMSModeSuspend"
  by (simp_all add: DPMSModeOn_def DPMSModeStandby_def DPMSModeSuspend_def DPMSModeOff_def)

text \<open>The code computes what the specification's corrector computes on the snapshot.\<close>

lemma workaround_refines:
  "uint (workaroundCreepyXServer dpy raw) = correct_idle (snapshot dpy) (uint raw)"
proof -
  obtain standby suspend off where t: "DPMSGetTimeouts dpy = (standby, suspend, off)"
    by (cases "DPMSGetTimeouts dpy") auto
  obtain state onoff where i: "DPMSInfo dpy = (state, onoff)"
    by (cases "DPMSInfo dpy") auto
  show ?thesis
    using mode_consts_distinct
    by (simp add: workaroundCreepyXServer_def correct_idle_def snapshot_def mode_of_def t i
          guarded_add [OF standby_ms_le] guarded_add [OF suspend_ms_le]
          guarded_add [OF off_ms_le] uint_standby_ms uint_suspend_ms uint_off_ms
        del: distrib_right_numeral distrib_left_numeral)
qed

section \<open>Properties of the corrector\<close>

lemma add_if_below_ge: "0 \<le> t \<Longrightarrow> x \<le> add_if_below t x"
  by (simp add: add_if_below_def)

lemma add_if_below_le: "add_if_below t x \<le> x + max 0 t"
  by (simp add: add_if_below_def)

lemma add_if_below_reaches: "0 \<le> x \<Longrightarrow> t \<le> add_if_below t x"
  by (simp add: add_if_below_def)

lemma add_if_below_idem:
  "0 \<le> x \<Longrightarrow> add_if_below t (add_if_below t x) = add_if_below t x"
  by (simp add: add_if_below_def)

lemma correct_idle_threshold:
  "correct_idle s x = add_if_below (cumulative_threshold s) x"
  by (simp add: correct_idle_def cumulative_threshold_def add_if_below_def
           split: dpms_mode.splits)

lemma snapshot_threshold_bounds:
  "0 \<le> cumulative_threshold (snapshot dpy)"
  "cumulative_threshold (snapshot dpy) \<le> 196605000"
proof -
  obtain standby suspend off where t: "DPMSGetTimeouts dpy = (standby, suspend, off)"
    by (cases "DPMSGetTimeouts dpy") auto
  obtain state onoff where i: "DPMSInfo dpy = (state, onoff)"
    by (cases "DPMSInfo dpy") auto
  have b: "0 \<le> uint standby" "0 \<le> uint suspend" "0 \<le> uint off"
    "uint standby < 65536" "uint suspend < 65536" "uint off < 65536"
    using uint_CARD16_bound by simp_all
  show "0 \<le> cumulative_threshold (snapshot dpy)"
    using b by (simp add: cumulative_threshold_def snapshot_def t i split: dpms_mode.splits)
  show "cumulative_threshold (snapshot dpy) \<le> 196605000"
    using b by (simp add: cumulative_threshold_def snapshot_def t i split: dpms_mode.splits)
qed

lemma workaround_uint:
  "uint (workaroundCreepyXServer dpy raw)
     = add_if_below (cumulative_threshold (snapshot dpy)) (uint raw)"
  by (simp add: workaround_refines correct_idle_threshold)

lemma workaround_ge: "raw \<le> workaroundCreepyXServer dpy raw"
  by (simp add: word_le_def workaround_uint add_if_below_ge snapshot_threshold_bounds)

lemma get_x_idletime_success:
  assumes "XOpenDisplay w = Some dpy" "snd (get_x_idletime w) = Some idle"
  shows "\<exists>raw. XScreenSaverQueryInfo dpy = Some raw \<and>
           idle = (if VendorRelease dpy <s 12000000
                   then workaroundCreepyXServer dpy raw else raw)"
  using assms by (auto simp: get_x_idletime_def Let_def split: if_splits option.splits)

lemmas mode_defs = DPMSModeOn_def DPMSModeStandby_def DPMSModeSuspend_def DPMSModeOff_def

lemma sample_workaround: "workaroundCreepyXServer sample_display 2000 = 7000"
  by (simp add: workaroundCreepyXServer_def sample_display_def mode_defs promote_def
        to_unsigned_def unsigned_to_ulong_def int_to_ulong_def)

lemma sample_query:
  "get_x_idletime sample_world =
     ([Open_display True, Alloc_info True, Free_info, Close_display], Some 7000)"
  using sample_workaround
  by (simp add: get_x_idletime_def sample_world_def)
     (simp add: sample_display_def)

lemma sample_threshold: "cumulative_threshold (snapshot sample_display) = 5000"
  by (simp add: cumulative_threshold_def snapshot_def sample_display_def mode_of_def mode_defs)

text \<open>
  \<^bold>\<open>Claim C1.\<close> For every display, that is every DPMS snapshot, and every raw idle value,
  the value \<open>workaroundCreepyXServer\<close> returns is exactly the one the specification's
  corrector gives: the raw value when the DPMS query fails, the server is not capable,
  DPMS is disabled, the mode is On or the mode is not recognised; in the modes Standby,
  Suspend and Off the raw value plus the cumulative threshold
  (\<open>standby * 1000\<close>, \<open>(suspend + standby) * 1000\<close>, \<open>(off + suspend + standby) * 1000\<close>)
  exactly when the raw value is below that threshold, and the raw value otherwise. The
  values are read as mathematical integers, so the equation also says that nothing wraps.
\<close>

theorem corrector_exact:
  "uint (workaroundCreepyXServer dpy raw_idle) = correct_idle (snapshot dpy) (uint raw_idle)"
  by (rule workaround_refines)

theorem corrector_exact_witness:
  "uint (workaroundCreepyXServer sample_display 2000) = 7000
   \<and> uint (workaroundCreepyXServer sample_display 6000) = 6000
   \<and> uint (workaroundCreepyXServer (sample_display\<lparr>DPMSInfo := (DPMSModeSuspend, 1)\<rparr>) 0) = 15000
   \<and> uint (workaroundCreepyXServer (sample_display\<lparr>DPMSInfo := (DPMSModeOff, 1)\<rparr>) 100) = 35100
   \<and> uint (workaroundCreepyXServer (sample_display\<lparr>DPMSInfo := (DPMSModeOn, 1)\<rparr>) 100) = 100
   \<and> uint (workaroundCreepyXServer (sample_display\<lparr>DPMSInfo := (7, 1)\<rparr>) 100) = 100
   \<and> uint (workaroundCreepyXServer (sample_display\<lparr>DPMSInfo := (DPMSModeOff, 0)\<rparr>) 100) = 100
   \<and> uint (workaroundCreepyXServer (sample_display\<lparr>DPMSCapable := False\<rparr>) 100) = 100
   \<and> uint (workaroundCreepyXServer (sample_display\<lparr>DPMSQueryExtension := False\<rparr>) 100) = 100"
  using corrector_exact [of sample_display 2000] corrector_exact [of sample_display 6000]
    corrector_exact [of "sample_display\<lparr>DPMSInfo := (DPMSModeSuspend, 1)\<rparr>" 0]
    corrector_exact [of "sample_display\<lparr>DPMSInfo := (DPMSModeOff, 1)\<rparr>" 100]
    corrector_exact [of "sample_display\<lparr>DPMSInfo := (DPMSModeOn, 1)\<rparr>" 100]
    corrector_exact [of "sample_display\<lparr>DPMSInfo := (7, 1)\<rparr>" 100]
    corrector_exact [of "sample_display\<lparr>DPMSInfo := (DPMSModeOff, 0)\<rparr>" 100]
    corrector_exact [of "sample_display\<lparr>DPMSCapable := False\<rparr>" 100]
    corrector_exact [of "sample_display\<lparr>DPMSQueryExtension := False\<rparr>" 100]
  by (simp add: correct_idle_def snapshot_def sample_display_def mode_of_def add_if_below_def
        mode_defs)

text \<open>
  \<^bold>\<open>Claim C4.\<close> For every raw idle value and every display (any vendor release, capability,
  enabled flag, mode and timeouts) the corrected value is at least the raw value, and so
  is the value a successful \<open>get_x_idletime\<close> stores, whether or not it went through the
  corrector: the correction adds and never subtracts.
\<close>

theorem correction_never_subtracts:
  "uint raw_idle \<le> uint (workaroundCreepyXServer dpy raw_idle) \<and>
   (XOpenDisplay w = Some dpy \<longrightarrow> XScreenSaverQueryInfo dpy = Some raw_idle \<longrightarrow>
    snd (get_x_idletime w) = Some idle \<longrightarrow> uint raw_idle \<le> uint idle)"
proof -
  have a: "uint raw_idle \<le> uint (workaroundCreepyXServer dpy raw_idle)"
    using workaround_ge [of raw_idle dpy] by (simp add: word_le_def)
  have "uint raw_idle \<le> uint idle"
    if "XOpenDisplay w = Some dpy" "XScreenSaverQueryInfo dpy = Some raw_idle"
       "snd (get_x_idletime w) = Some idle"
    using get_x_idletime_success [OF that(1) that(3)] that(2) a by (auto split: if_splits)
  with a show ?thesis by blast
qed

theorem correction_never_subtracts_witness:
  "XOpenDisplay sample_world = Some sample_display \<and>
   XScreenSaverQueryInfo sample_display = Some 2000 \<and>
   snd (get_x_idletime sample_world) = Some 7000 \<and>
   uint (2000 :: c_ulong) \<le> uint (workaroundCreepyXServer sample_display 2000) \<and>
   uint (2000 :: c_ulong) \<le> uint (7000 :: c_ulong)"
  using correction_never_subtracts [of 2000 sample_display sample_world 7000]
  by (simp add: sample_query) (simp add: sample_world_def sample_display_def)

text \<open>
  \<^bold>\<open>Claim C9.\<close> For every display and every raw idle value the corrector is idempotent:
  applied to a value it has corrected, it returns that value unchanged. The reason is the
  second conjunct: after one application the result is at least the cumulative threshold
  of the current mode, so the guard of the addition is false the second time.
\<close>

theorem corrector_idempotent:
  "workaroundCreepyXServer dpy (workaroundCreepyXServer dpy raw_idle)
     = workaroundCreepyXServer dpy raw_idle
   \<and> cumulative_threshold (snapshot dpy) \<le> uint (workaroundCreepyXServer dpy raw_idle)"
proof -
  have "uint (workaroundCreepyXServer dpy (workaroundCreepyXServer dpy raw_idle))
        = uint (workaroundCreepyXServer dpy raw_idle)"
    by (simp add: workaround_uint add_if_below_idem)
  then have "workaroundCreepyXServer dpy (workaroundCreepyXServer dpy raw_idle)
        = workaroundCreepyXServer dpy raw_idle"
    by (simp add: word_uint_eq_iff)
  moreover have "cumulative_threshold (snapshot dpy) \<le> uint (workaroundCreepyXServer dpy raw_idle)"
    by (simp add: workaround_uint add_if_below_reaches)
  ultimately show ?thesis by simp
qed

theorem corrector_idempotent_witness:
  "workaroundCreepyXServer sample_display 2000 = 7000 \<and>
   workaroundCreepyXServer sample_display 7000 = 7000 \<and>
   cumulative_threshold (snapshot sample_display) = 5000"
  using corrector_idempotent [of sample_display 2000]
  by (simp add: sample_workaround sample_threshold)

text \<open>
  \<^bold>\<open>Claim C10.\<close> For all 16-bit timeouts, the products \<open>standby * 1000\<close>,
  \<open>(suspend + standby) * 1000\<close> and \<open>(off + suspend + standby) * 1000\<close> and the sums inside
  them, computed in signed 32-bit arithmetic, have the mathematical value (no overflow);
  each threshold is at most 196605000; the conversions to \<open>unsigned long\<close> on both sides
  of the guarded addition keep that value; the comparison and the addition are therefore
  exact, and the corrected value exceeds the raw one by at most 196605000 milliseconds.
\<close>

theorem thresholds_exact:
  "sint (promote standby * 1000) = uint standby * 1000
   \<and> sint (promote suspend + promote standby) = uint suspend + uint standby
   \<and> sint ((promote suspend + promote standby) * 1000) = (uint suspend + uint standby) * 1000
   \<and> sint (promote off + promote suspend) = uint off + uint suspend
   \<and> sint (promote off + promote suspend + promote standby)
       = uint off + uint suspend + uint standby
   \<and> sint ((promote off + promote suspend + promote standby) * 1000)
       = (uint off + uint suspend + uint standby) * 1000
   \<and> uint standby * 1000 \<le> 196605000
   \<and> (uint suspend + uint standby) * 1000 \<le> 196605000
   \<and> (uint off + uint suspend + uint standby) * 1000 \<le> 196605000
   \<and> uint (unsigned_to_ulong
              (to_unsigned ((promote off + promote suspend + promote standby) * 1000)))
       = (uint off + uint suspend + uint standby) * 1000
   \<and> uint (int_to_ulong ((promote off + promote suspend + promote standby) * 1000))
       = (uint off + uint suspend + uint standby) * 1000
   \<and> uint (workaroundCreepyXServer dpy raw_idle)
       = add_if_below (cumulative_threshold (snapshot dpy)) (uint raw_idle)
   \<and> uint raw_idle \<le> uint (workaroundCreepyXServer dpy raw_idle)
   \<and> uint (workaroundCreepyXServer dpy raw_idle) \<le> uint raw_idle + 196605000"
proof -
  have b: "uint standby < 65536" "uint suspend < 65536" "uint off < 65536"
    using uint_CARD16_bound by simp_all
  have s1: "sint (promote standby * 1000) = uint standby * 1000"
    using b by (subst sint_small) (simp_all only: uint_standby_ms, simp_all)
  have s2: "sint (promote suspend + promote standby) = uint suspend + uint standby"
    using b by (subst sint_small) (simp_all only: uint_suspend_sum, simp_all)
  have s3: "sint ((promote suspend + promote standby) * 1000)
       = (uint suspend + uint standby) * 1000"
    using b by (subst sint_small) (simp_all only: uint_suspend_ms, simp_all)
  have s4: "sint (promote off + promote suspend) = uint off + uint suspend"
    using b by (subst sint_small) (simp_all only: uint_suspend_sum, simp_all)
  have s5: "sint (promote off + promote suspend + promote standby)
       = uint off + uint suspend + uint standby"
    using b by (subst sint_small) (simp_all only: uint_off_sum, simp_all)
  have s6: "sint ((promote off + promote suspend + promote standby) * 1000)
       = (uint off + uint suspend + uint standby) * 1000"
    using b by (subst sint_small) (simp_all only: uint_off_ms, simp_all)
  have b1: "uint standby * 1000 \<le> 196605000" using b by simp
  have b2: "(uint suspend + uint standby) * 1000 \<le> 196605000" using b by simp
  have b3: "(uint off + uint suspend + uint standby) * 1000 \<le> 196605000" using b by simp
  have u: "uint (unsigned_to_ulong
                  (to_unsigned ((promote off + promote suspend + promote standby) * 1000)))
       = (uint off + uint suspend + uint standby) * 1000"
    by (simp only: unsigned_to_ulong_uint uint_off_ms)
  have "uint ((promote off + promote suspend + promote standby) * 1000) < 2 ^ 31"
    using b3 by (simp only: uint_off_ms) simp
  then have i: "uint (int_to_ulong ((promote off + promote suspend + promote standby) * 1000))
       = (uint off + uint suspend + uint standby) * 1000"
    by (simp only: int_to_ulong_small uint_off_ms)
  have w1: "uint raw_idle \<le> uint (workaroundCreepyXServer dpy raw_idle)"
    by (simp add: workaround_uint add_if_below_ge snapshot_threshold_bounds)
  have w2: "uint (workaroundCreepyXServer dpy raw_idle) \<le> uint raw_idle + 196605000"
    using add_if_below_le [of "cumulative_threshold (snapshot dpy)" "uint raw_idle"]
      snapshot_threshold_bounds [of dpy]
    by (simp add: workaround_uint)
  show ?thesis
    using s1 s2 s3 s4 s5 s6 b1 b2 b3 u i w1 w2 workaround_uint [of dpy raw_idle] by blast
qed

theorem thresholds_exact_witness:
  "sint ((promote 65535 + promote 65535 + promote 65535) * 1000) = 196605000
   \<and> uint (workaroundCreepyXServer sample_display 2000) = 7000"
  using thresholds_exact [of 65535 65535 65535 sample_display 2000]
  by (simp add: sample_threshold add_if_below_def)

section \<open>Properties of the idle query\<close>

text \<open>
  \<^bold>\<open>Claim C2.\<close> When the query succeeds on a display whose vendor release is at least
  12000000, the idle value it stores is the raw value read from the server, whatever the
  DPMS state of the display; when the vendor release is below 12000000, it is the
  corrector applied to the raw value. The comparison is the signed one of the code.
\<close>

theorem vendor_release_gate:
  "XOpenDisplay w = Some dpy \<Longrightarrow> XScreenSaverQueryExtension dpy \<Longrightarrow>
   XScreenSaverAllocInfo w \<Longrightarrow> XScreenSaverQueryInfo dpy = Some raw_idle \<Longrightarrow>
   (12000000 \<le> sint (VendorRelease dpy) \<longrightarrow> snd (get_x_idletime w) = Some raw_idle) \<and>
   (sint (VendorRelease dpy) < 12000000 \<longrightarrow>
      snd (get_x_idletime w) = Some (workaroundCreepyXServer dpy raw_idle))"
  by (simp add: get_x_idletime_def word_sless_alt)

theorem vendor_release_gate_witness:
  "snd (get_x_idletime sample_world) = Some 7000 \<and>
   workaroundCreepyXServer sample_display 2000 = 7000 \<and>
   sint (VendorRelease sample_display) = 11999999 \<and>
   snd (get_x_idletime (sample_world\<lparr>XOpenDisplay :=
          Some (sample_display\<lparr>VendorRelease := 12000000\<rparr>)\<rparr>)) = Some 2000"
  using vendor_release_gate [of sample_world sample_display 2000]
    vendor_release_gate [of "sample_world\<lparr>XOpenDisplay :=
          Some (sample_display\<lparr>VendorRelease := 12000000\<rparr>)\<rparr>"
          "sample_display\<lparr>VendorRelease := 12000000\<rparr>" 2000]
  by (simp add: sample_world_def sample_display_def
        sample_workaround [unfolded sample_display_def])

text \<open>
  \<^bold>\<open>Claim C5.\<close> Each of the four causes makes the idle query fail: the display cannot be
  opened, the screen saver extension is missing, the info structure cannot be allocated,
  the info query fails. In each case the query returns -1, nothing has been written to
  \<open>stdout\<close>, and \<open>stderr\<close> holds exactly the one line that names that step. The query fails
  for no other reason, and when it succeeds it writes nothing to \<open>stderr\<close>. Whenever it
  fails, \<open>stderr\<close> holds a single line, and \<open>main\<close>, in every invocation that reaches the
  query, ends with the trace of the query, so with an empty \<open>stdout\<close>, and with the exit
  status \<open>EXIT_FAILURE\<close>, which is not zero. There is no outcome in between.
\<close>

theorem query_failure_reporting:
  "(XOpenDisplay w = None \<longrightarrow>
      snd (get_x_idletime w) = None
      \<and> stdout_of (fst (get_x_idletime w)) = []
      \<and> stderr_of (fst (get_x_idletime w)) = ''couldn't open display\<newline>'')
   \<and> (XOpenDisplay w = Some dpy \<and> \<not> XScreenSaverQueryExtension dpy \<longrightarrow>
      snd (get_x_idletime w) = None
      \<and> stdout_of (fst (get_x_idletime w)) = []
      \<and> stderr_of (fst (get_x_idletime w)) = ''screen saver extension not supported\<newline>'')
   \<and> (XOpenDisplay w = Some dpy \<and> XScreenSaverQueryExtension dpy
        \<and> \<not> XScreenSaverAllocInfo w \<longrightarrow>
      snd (get_x_idletime w) = None
      \<and> stdout_of (fst (get_x_idletime w)) = []
      \<and> stderr_of (fst (get_x_idletime w)) = ''couldn't allocate screen saver info\<newline>'')
   \<and> (XOpenDisplay w = Some dpy \<and> XScreenSaverQueryExtension dpy
        \<and> XScreenSaverAllocInfo w \<and> XScreenSaverQueryInfo dpy = None \<longrightarrow>
      snd (get_x_idletime w) = None
      \<and> stdout_of (fst (get_x_idletime w)) = []
      \<and> stderr_of (fst (get_x_idletime w)) = ''couldn't query screen saver info\<newline>'')
   \<and> (snd (get_x_idletime w) = None \<longleftrightarrow>
        XOpenDisplay w = None
        \<or> (\<exists>d. XOpenDisplay w = Some d
               \<and> (\<not> XScreenSaverQueryExtension d \<or> \<not> XScreenSaverAllocInfo w
                    \<or> XScreenSaverQueryInfo d = None)))
   \<and> (snd (get_x_idletime w) = None \<longrightarrow>
        stdout_of (fst (get_x_idletime w)) = []
        \<and> count_list (stderr_of (fst (get_x_idletime w))) CHR ''\<newline>'' = 1
        \<and> last (stderr_of (fst (get_x_idletime w))) = CHR ''\<newline>''
        \<and> main_query w human = (fst (get_x_idletime w), EXIT_FAILURE)
        \<and> (length argv = 1 \<or>
             (2 \<le> length argv \<and> argv ! 1 \<notin> {''-v'', ''--version'', ''-h'', ''--help''})
            \<longrightarrow> main w argv = Some (fst (get_x_idletime w), EXIT_FAILURE)))
   \<and> (snd (get_x_idletime w) \<noteq> None \<longrightarrow> stderr_of (fst (get_x_idletime w)) = [])
   \<and> EXIT_FAILURE \<noteq> 0"
proof -
  have c1: "XOpenDisplay w = None \<longrightarrow>
      snd (get_x_idletime w) = None
      \<and> stdout_of (fst (get_x_idletime w)) = []
      \<and> stderr_of (fst (get_x_idletime w)) = ''couldn't open display\<newline>''"
    by (simp add: get_x_idletime_def)
  have c2: "XOpenDisplay w = Some dpy \<and> \<not> XScreenSaverQueryExtension dpy \<longrightarrow>
      snd (get_x_idletime w) = None
      \<and> stdout_of (fst (get_x_idletime w)) = []
      \<and> stderr_of (fst (get_x_idletime w)) = ''screen saver extension not supported\<newline>''"
    by (simp add: get_x_idletime_def)
  have c3: "XOpenDisplay w = Some dpy \<and> XScreenSaverQueryExtension dpy
        \<and> \<not> XScreenSaverAllocInfo w \<longrightarrow>
      snd (get_x_idletime w) = None
      \<and> stdout_of (fst (get_x_idletime w)) = []
      \<and> stderr_of (fst (get_x_idletime w)) = ''couldn't allocate screen saver info\<newline>''"
    by (simp add: get_x_idletime_def)
  have c4: "XOpenDisplay w = Some dpy \<and> XScreenSaverQueryExtension dpy
        \<and> XScreenSaverAllocInfo w \<and> XScreenSaverQueryInfo dpy = None \<longrightarrow>
      snd (get_x_idletime w) = None
      \<and> stdout_of (fst (get_x_idletime w)) = []
      \<and> stderr_of (fst (get_x_idletime w)) = ''couldn't query screen saver info\<newline>''"
    by (simp add: get_x_idletime_def)
  have c5: "snd (get_x_idletime w) = None \<longleftrightarrow>
        XOpenDisplay w = None
        \<or> (\<exists>d. XOpenDisplay w = Some d
               \<and> (\<not> XScreenSaverQueryExtension d \<or> \<not> XScreenSaverAllocInfo w
                    \<or> XScreenSaverQueryInfo d = None))"
    by (auto simp: get_x_idletime_def Let_def split: option.splits)
  have c6: "stdout_of (fst (get_x_idletime w)) = []
        \<and> count_list (stderr_of (fst (get_x_idletime w))) CHR ''\<newline>'' = 1
        \<and> last (stderr_of (fst (get_x_idletime w))) = CHR ''\<newline>''
        \<and> main_query w human = (fst (get_x_idletime w), EXIT_FAILURE)
        \<and> (length argv = 1 \<or>
             (2 \<le> length argv \<and> argv ! 1 \<notin> {''-v'', ''--version'', ''-h'', ''--help''})
            \<longrightarrow> main w argv = Some (fst (get_x_idletime w), EXIT_FAILURE))"
    if n: "snd (get_x_idletime w) = None"
  proof -
    have m: "main_query w h = (fst (get_x_idletime w), EXIT_FAILURE)" for h
      using n by (cases "get_x_idletime w") (simp add: main_query_def)
    have a: "main w argv = Some (fst (get_x_idletime w), EXIT_FAILURE)"
      if "length argv = 1 \<or>
          (2 \<le> length argv \<and> argv ! 1 \<notin> {''-v'', ''--version'', ''-h'', ''--help''})"
      using that by (auto simp: main_def m Let_def)
    have o: "stdout_of (fst (get_x_idletime w)) = []"
      using n by (auto simp: get_x_idletime_def Let_def split: option.splits if_splits)
    have e: "stderr_of (fst (get_x_idletime w)) \<in>
       {''couldn't open display\<newline>'', ''screen saver extension not supported\<newline>'',
        ''couldn't allocate screen saver info\<newline>'',
        ''couldn't query screen saver info\<newline>''}"
      using n by (auto simp: get_x_idletime_def Let_def split: option.splits if_splits)
    have k: "count_list (stderr_of (fst (get_x_idletime w))) CHR ''\<newline>'' = 1"
      using e by auto
    have l: "last (stderr_of (fst (get_x_idletime w))) = CHR ''\<newline>''"
      using e by auto
    show ?thesis using m [of human] a o k l by blast
  qed
  have c7: "snd (get_x_idletime w) \<noteq> None \<longrightarrow> stderr_of (fst (get_x_idletime w)) = []"
    by (auto simp: get_x_idletime_def Let_def split: option.splits if_splits)
  have c8: "EXIT_FAILURE \<noteq> 0" by (simp add: EXIT_FAILURE_def)
  show ?thesis using c1 c2 c3 c4 c5 c6 c7 c8 by blast
qed

theorem query_failure_reporting_witness:
  "main (sample_world\<lparr>XOpenDisplay := None\<rparr>) [''xprintidle'']
     = Some ([Open_display False, Print_stderr ''couldn't open display\<newline>''], 1)
   \<and> main (sample_world\<lparr>XOpenDisplay :=
              Some (sample_display\<lparr>XScreenSaverQueryExtension := False\<rparr>)\<rparr>)
          [''xprintidle'', ''-H'']
     = Some ([Open_display True,
              Print_stderr ''screen saver extension not supported\<newline>'',
              Close_display], 1)
   \<and> main (sample_world\<lparr>XScreenSaverAllocInfo := False\<rparr>) [''xprintidle'']
     = Some ([Open_display True, Alloc_info False,
              Print_stderr ''couldn't allocate screen saver info\<newline>'',
              Close_display], 1)
   \<and> main (sample_world\<lparr>XOpenDisplay :=
              Some (sample_display\<lparr>XScreenSaverQueryInfo := None\<rparr>)\<rparr>)
          [''xprintidle'', ''--human-readable'']
     = Some ([Open_display True, Alloc_info True,
              Print_stderr ''couldn't query screen saver info\<newline>'',
              Free_info, Close_display], 1)
   \<and> snd (get_x_idletime sample_world) \<noteq> None
   \<and> stderr_of (fst (get_x_idletime sample_world)) = []"
proof -
  let ?w1 = "sample_world\<lparr>XOpenDisplay := None\<rparr>"
  let ?d2 = "sample_display\<lparr>XScreenSaverQueryExtension := False\<rparr>"
  let ?w2 = "sample_world\<lparr>XOpenDisplay := Some ?d2\<rparr>"
  let ?w3 = "sample_world\<lparr>XScreenSaverAllocInfo := False\<rparr>"
  let ?d4 = "sample_display\<lparr>XScreenSaverQueryInfo := None\<rparr>"
  let ?w4 = "sample_world\<lparr>XOpenDisplay := Some ?d4\<rparr>"
  have t1: "fst (get_x_idletime ?w1)
      = [Open_display False, Print_stderr ''couldn't open display\<newline>'']"
    by (simp add: get_x_idletime_def)
  have t2: "fst (get_x_idletime ?w2)
      = [Open_display True, Print_stderr ''screen saver extension not supported\<newline>'',
         Close_display]"
    by (simp add: get_x_idletime_def sample_display_def)
  have t3: "fst (get_x_idletime ?w3)
      = [Open_display True, Alloc_info False,
         Print_stderr ''couldn't allocate screen saver info\<newline>'', Close_display]"
    by (simp add: get_x_idletime_def sample_world_def sample_display_def)
  have t4: "fst (get_x_idletime ?w4)
      = [Open_display True, Alloc_info True,
         Print_stderr ''couldn't query screen saver info\<newline>'', Free_info, Close_display]"
    by (simp add: get_x_idletime_def sample_world_def sample_display_def)
  have h1: "XOpenDisplay ?w1 = None" by simp
  have h2: "XOpenDisplay ?w2 = Some ?d2 \<and> \<not> XScreenSaverQueryExtension ?d2" by simp
  have h3: "XOpenDisplay ?w3 = Some sample_display \<and> XScreenSaverQueryExtension sample_display
            \<and> \<not> XScreenSaverAllocInfo ?w3"
    by (simp add: sample_world_def sample_display_def)
  have h4: "XOpenDisplay ?w4 = Some ?d4 \<and> XScreenSaverQueryExtension ?d4
            \<and> XScreenSaverAllocInfo ?w4 \<and> XScreenSaverQueryInfo ?d4 = None"
    by (simp add: sample_world_def sample_display_def)
  have m1: "main ?w1 [''xprintidle''] = Some (fst (get_x_idletime ?w1), EXIT_FAILURE)"
    using query_failure_reporting [of ?w1 sample_display True "[''xprintidle'']"] h1
    by simp
  have m2: "main ?w2 [''xprintidle'', ''-H''] = Some (fst (get_x_idletime ?w2), EXIT_FAILURE)"
    using query_failure_reporting [of ?w2 ?d2 True "[''xprintidle'', ''-H'']"] h2
    by simp
  have m3: "main ?w3 [''xprintidle''] = Some (fst (get_x_idletime ?w3), EXIT_FAILURE)"
    using query_failure_reporting [of ?w3 sample_display False "[''xprintidle'']"] h3
    by simp
  have m4: "main ?w4 [''xprintidle'', ''--human-readable'']
      = Some (fst (get_x_idletime ?w4), EXIT_FAILURE)"
    using query_failure_reporting [of ?w4 ?d4 True "[''xprintidle'', ''--human-readable'']"] h4
    by simp
  have s: "snd (get_x_idletime sample_world) \<noteq> None
     \<and> stderr_of (fst (get_x_idletime sample_world)) = []"
    using query_failure_reporting [of sample_world sample_display True "[''xprintidle'']"]
    by (simp add: sample_query)
  show ?thesis
    using m1 m2 m3 m4 s unfolding t1 t2 t3 t4 EXIT_FAILURE_def by blast
qed

text \<open>
  \<^bold>\<open>Claim C8.\<close> In every execution of the idle query no connection handle is held when
  the function returns; and whenever the display was opened, the trace starts with the
  successful \<open>XOpenDisplay\<close>, ends with \<open>XCloseDisplay\<close>, and opens or closes nothing in
  between: the handle is released on the success path and on each of the three failure
  paths that follow the opening.
\<close>

theorem connection_released:
  "handles_held 0 (fst (get_x_idletime w)) = 0 \<and>
   (XOpenDisplay w \<noteq> None \<longrightarrow>
      (\<exists>mid. fst (get_x_idletime w) = Open_display True # mid @ [Close_display]
             \<and> Close_display \<notin> set mid \<and> (\<forall>b. Open_display b \<notin> set mid)))"
proof (cases "XOpenDisplay w")
  case None
  then show ?thesis by (simp add: get_x_idletime_def)
next
  case (Some dpy)
  show ?thesis
  proof (cases "XScreenSaverQueryExtension dpy")
    case False
    with Some show ?thesis by (simp add: get_x_idletime_def)
  next
    case ext: True
    show ?thesis
    proof (cases "XScreenSaverAllocInfo w")
      case False
      with Some ext show ?thesis by (simp add: get_x_idletime_def)
    next
      case alloc: True
      show ?thesis
      proof (cases "XScreenSaverQueryInfo dpy")
        case None
        with Some ext alloc show ?thesis by (simp add: get_x_idletime_def)
      next
        case (Some raw)
        with \<open>XOpenDisplay w = Some dpy\<close> ext alloc show ?thesis
          by (simp add: get_x_idletime_def)
      qed
    qed
  qed
qed

theorem connection_released_witness:
  "XOpenDisplay sample_world \<noteq> None \<and>
   fst (get_x_idletime sample_world)
     = Open_display True # [Alloc_info True, Free_info] @ [Close_display] \<and>
   handles_held 0 (fst (get_x_idletime sample_world)) = 0"
  using connection_released [of sample_world]
  by (simp add: sample_query) (simp add: sample_world_def)

section \<open>Properties of the command line\<close>

text \<open>
  \<^bold>\<open>Claim C7.\<close> For every invocation whose first argument is \<open>-v\<close> or \<open>--version\<close>, in
  every world, the program exits with status 0, its standard output is the single line
  \<open>xprintidle\<close> followed by the version, it writes nothing to \<open>stderr\<close>, and its trace
  holds no call of \<open>XOpenDisplay\<close>, successful or not.
\<close>

theorem version_without_connection:
  assumes "2 \<le> length argv" "argv ! 1 = ''-v'' \<or> argv ! 1 = ''--version''"
  shows "\<exists>tr. main w argv = Some (tr, 0)
           \<and> stdout_of tr = ''xprintidle '' @ XPRINTIDLE_VERSION @ ''\<newline>''
           \<and> count_list (stdout_of tr) CHR ''\<newline>'' = 1
           \<and> last (stdout_of tr) = CHR ''\<newline>''
           \<and> stderr_of tr = []
           \<and> (\<forall>b. Open_display b \<notin> set tr)"
proof -
  have "main w argv = Some (print_version, 0)"
    using assms by (auto simp: main_def Let_def EXIT_SUCCESS_def)
  moreover have "stdout_of print_version = ''xprintidle '' @ XPRINTIDLE_VERSION @ ''\<newline>''"
    by (simp add: print_version_def)
  moreover have "count_list (stdout_of print_version) CHR ''\<newline>'' = 1"
    by (simp add: print_version_def XPRINTIDLE_VERSION_def)
  moreover have "last (stdout_of print_version) = CHR ''\<newline>''"
    by (simp add: print_version_def)
  moreover have "stderr_of print_version = []"
    by (simp add: print_version_def)
  moreover have "\<forall>b. Open_display b \<notin> set print_version"
    by (simp add: print_version_def)
  ultimately show ?thesis by blast
qed

theorem version_without_connection_witness:
  "main (sample_world\<lparr>XOpenDisplay := None\<rparr>) [''xprintidle'', ''--version'']
     = Some ([Print_stdout ''xprintidle 0.3.0\<newline>''], 0)
   \<and> main sample_world [''xprintidle'', ''-v'', ''extra'']
     = Some ([Print_stdout ''xprintidle 0.3.0\<newline>''], 0)"
proof -
  have "\<exists>tr. main (sample_world\<lparr>XOpenDisplay := None\<rparr>) [''xprintidle'', ''--version'']
           = Some (tr, 0)"
    using version_without_connection
      [of "[''xprintidle'', ''--version'']" "sample_world\<lparr>XOpenDisplay := None\<rparr>"]
    by auto
  moreover have "\<exists>tr. main sample_world [''xprintidle'', ''-v'', ''extra''] = Some (tr, 0)"
    using version_without_connection [of "[''xprintidle'', ''-v'', ''extra'']" sample_world]
    by auto
  ultimately show ?thesis
    by (auto simp: main_def print_version_def XPRINTIDLE_VERSION_def)
qed

text \<open>
  What \<open>main\<close> does with its arguments: only the first one is read; \<open>-h\<close> and \<open>--help\<close>
  print the usage text on \<open>stdout\<close> and exit with status 1 without opening the display;
  any first argument that is not one of the six flags leads to the plain query.
\<close>

lemma printf_llu_7000: "printf_llu 7000 = ''7000''"
  by (simp add: printf_llu_def string_of_nat.simps digit_char_def)

lemma first_argument_only:
  "main w (name # argument # rest) = main w [name, argument]"
  by (simp add: main_def Let_def)

lemma help_prints_usage:
  assumes "2 \<le> length argv" "argv ! 1 = ''-h'' \<or> argv ! 1 = ''--help''"
  shows "main w argv = Some (print_usage (argv ! 0), 1)"
    and "stdout_of (print_usage (argv ! 0)) =
        ''usage: '' @ argv ! 0 @ '' [OPTION]\<newline>'' @
        ''Query the X server for the user's idle time\<newline>'' @
        ''\<newline>'' @
        ''Options:\<newline>'' @
        ''  -h, --help              Show this text\<newline>'' @
        ''  -H, --human-readable    Output the time in a human readable format\<newline>'' @
        ''  -v, --version           Print the program version\<newline>'' @
        ''\<newline>'' @
        ''Report bugs at: https://github.com/g0hl1n/xprintidle/issues\<newline>'' @
        ''Written by Magnus Henoch and others; see\<newline>'' @
        ''https://github.com/g0hl1n/xprintidle/blob/master/AUTHORS\<newline>''"
    and "stderr_of (print_usage (argv ! 0)) = []"
    and "\<forall>b. Open_display b \<notin> set (print_usage (argv ! 0))"
  using assms by (auto simp: main_def Let_def EXIT_FAILURE_def print_usage_def)

lemma unrecognised_argument_queries:
  assumes "2 \<le> length argv"
    "argv ! 1 \<notin> {''-h'', ''--help'', ''-v'', ''--version'', ''-H'', ''--human-readable''}"
  shows "main w argv = Some (main_query w False)"
  using assms by (auto simp: main_def Let_def)

text \<open>
  \<^bold>\<open>Claim C3\<close> fails on the code at an unrecognised first argument. The chain of tests on
  \<open>argv[1]\<close> in \<open>main\<close> has no final \<open>else\<close>, so with \<open>--bogus\<close> the program goes on to the
  query: on the sample display it opens the connection, prints the idle time \<open>7000\<close> and
  exits with status 0, where the claim gives the usage text and status 1 with no query;
  with no display available it reports the failed connection instead of the usage.
\<close>

theorem unrecognised_argument_runs_query:
  "main sample_world [''xprintidle'', ''--bogus'']
     = Some ([Open_display True, Alloc_info True, Free_info, Close_display,
              Print_stdout ''7000\<newline>''], 0)
   \<and> stdout_of [Open_display True, Alloc_info True, Free_info, Close_display,
                 Print_stdout ''7000\<newline>''] = ''7000\<newline>''
   \<and> stdout_of (print_usage ''xprintidle'') =
        ''usage: xprintidle [OPTION]\<newline>'' @
        ''Query the X server for the user's idle time\<newline>'' @
        ''\<newline>'' @
        ''Options:\<newline>'' @
        ''  -h, --help              Show this text\<newline>'' @
        ''  -H, --human-readable    Output the time in a human readable format\<newline>'' @
        ''  -v, --version           Print the program version\<newline>'' @
        ''\<newline>'' @
        ''Report bugs at: https://github.com/g0hl1n/xprintidle/issues\<newline>'' @
        ''Written by Magnus Henoch and others; see\<newline>'' @
        ''https://github.com/g0hl1n/xprintidle/blob/master/AUTHORS\<newline>''
   \<and> main sample_world [''xprintidle'', ''--bogus'']
       \<noteq> Some (print_usage ''xprintidle'', 1)
   \<and> main (sample_world\<lparr>XOpenDisplay := None\<rparr>) [''xprintidle'', ''--bogus'']
     = Some ([Open_display False, Print_stderr ''couldn't open display\<newline>''], 1)"
proof -
  have a: "main sample_world [''xprintidle'', ''--bogus'']
     = Some ([Open_display True, Alloc_info True, Free_info, Close_display,
              Print_stdout ''7000\<newline>''], 0)"
    by (simp add: main_def main_query_def sample_query printf_llu_7000 EXIT_SUCCESS_def)
  have b: "stdout_of (print_usage ''xprintidle'') =
        ''usage: xprintidle [OPTION]\<newline>'' @
        ''Query the X server for the user's idle time\<newline>'' @
        ''\<newline>'' @
        ''Options:\<newline>'' @
        ''  -h, --help              Show this text\<newline>'' @
        ''  -H, --human-readable    Output the time in a human readable format\<newline>'' @
        ''  -v, --version           Print the program version\<newline>'' @
        ''\<newline>'' @
        ''Report bugs at: https://github.com/g0hl1n/xprintidle/issues\<newline>'' @
        ''Written by Magnus Henoch and others; see\<newline>'' @
        ''https://github.com/g0hl1n/xprintidle/blob/master/AUTHORS\<newline>''"
    by (simp add: print_usage_def)
  have c: "main sample_world [''xprintidle'', ''--bogus'']
       \<noteq> Some (print_usage ''xprintidle'', 1)"
    unfolding a by simp
  have d: "main (sample_world\<lparr>XOpenDisplay := None\<rparr>) [''xprintidle'', ''--bogus'']
     = Some ([Open_display False, Print_stderr ''couldn't open display\<newline>''], 1)"
    by (simp add: main_def main_query_def get_x_idletime_def EXIT_FAILURE_def)
  show ?thesis using a b c d by simp
qed

section \<open>Properties of the human-readable output\<close>

lemma loop_end: "print_human_loop (Suc (Suc (Suc (Suc (Suc 0))))) t fp = ([], fp)"
  by (subst print_human_loop.simps) (simp add: units_def convFacs_def)

lemma loop_step:
  "i < 5 \<Longrightarrow> print_human_loop i time firstPrint =
     (let unitMag = (ucast (time div int_to_ulong (convFacs ! i)) :: c_int);
          time' = time mod int_to_ulong (convFacs ! i)
      in if unitMag = 0 then print_human_loop (Suc i) time' firstPrint
         else
           let printed = (if \<not> firstPrint then '', '' else []) @
                         printf_d unitMag @ '' '' @ names ! i @
                         (if unitMag \<noteq> 1 then ''s'' else []);
               (rest, firstPrint') = print_human_loop (Suc i) time' False
           in (printed @ rest, firstPrint'))"
proof -
  assume "i < 5"
  then have u: "i < units" by (simp add: units_def convFacs_def)
  show ?thesis
    by (subst print_human_loop.simps) (simp only: u if_True Suc_eq_plus1)
qed

lemma conv_ulong:
  "int_to_ulong (convFacs ! 0) = 86400000"
  "int_to_ulong (convFacs ! Suc 0) = 3600000"
  "int_to_ulong (convFacs ! Suc (Suc 0)) = 60000"
  "int_to_ulong (convFacs ! Suc (Suc (Suc 0))) = 1000"
  "int_to_ulong (convFacs ! Suc (Suc (Suc (Suc 0)))) = 1"
  by (simp_all add: convFacs_def int_to_ulong_def)

lemma names_nth:
  "names ! 0 = ''day''"
  "names ! Suc 0 = ''hour''"
  "names ! Suc (Suc 0) = ''minute''"
  "names ! Suc (Suc (Suc 0)) = ''second''"
  "names ! Suc (Suc (Suc (Suc 0))) = ''millisecond''"
  "names ! (units - Suc 0) = ''millisecond''"
  by (simp_all add: names_def units_def convFacs_def)

text \<open>
  One iteration on natural numbers: while the quotient is below \<open>2 ^ 31\<close>, the \<open>int\<close>
  variable \<open>unitMag\<close> holds the quotient itself.
\<close>

lemma unitMag_nat:
  fixes time c :: c_ulong
  assumes "0 < unat c" "unat time div unat c < 2147483648"
  shows "sint (ucast (time div c) :: c_int) = int (unat time div unat c)"
    and "uint (ucast (time div c) :: c_int) = int (unat time div unat c)"
    and "unat (time mod c) = unat time mod unat c"
proof -
  have q: "uint (time div c) = int (unat time div unat c)"
    by (simp add: uint_div zdiv_int)
  have "uint (time div c) < 2 ^ 32" using assms(2) unfolding q by simp
  then have u: "uint (ucast (time div c) :: c_int) = uint (time div c)"
    by (simp add: unsigned_ucast_eq take_bit_int_eq_self)
  show "uint (ucast (time div c) :: c_int) = int (unat time div unat c)"
    using u q by simp
  have "uint (ucast (time div c) :: c_int) < 2 ^ 31"
    using assms(2) unfolding u q by simp
  then show "sint (ucast (time div c) :: c_int) = int (unat time div unat c)"
    using sint_small u q by simp
  show "unat (time mod c) = unat time mod unat c"
    by (simp add: unat_mod)
qed

lemma comma_separated_Cons:
  "comma_separated (x # ys) = (if ys = [] then x else x @ '', '' @ comma_separated ys)"
  by (cases ys) simp_all

lemma shown_text_Nil: "shown_text fp [] = ([], fp)"
  by (simp add: shown_text_def)

lemma shown_text_Cons:
  "shown_text fp ((m, name) # cs) =
     (if m = 0 then shown_text fp cs
      else case shown_text False cs of (rest, fp') \<Rightarrow>
        ((if \<not> fp then '', '' else []) @ string_of_nat m @ '' '' @ name @
         (if m \<noteq> 1 then ''s'' else []) @ rest, fp'))"
  by (simp add: shown_text_def Let_def comma_separated_Cons component_text_def)

lemma printf_d_nonneg: "sint m = int n \<Longrightarrow> printf_d m = string_of_nat n"
  by (simp add: printf_d_def)

lemma loop_step_nat:
  assumes i: "i < 5"
    and c: "int_to_ulong (convFacs ! i) = c" "0 < unat c"
    and q: "unat time div unat c < 2147483648"
  shows "print_human_loop i time fp =
     (if unat time div unat c = 0 then print_human_loop (Suc i) (time mod c) fp
      else case print_human_loop (Suc i) (time mod c) False of (rest, fp') \<Rightarrow>
        ((if \<not> fp then '', '' else []) @ string_of_nat (unat time div unat c) @ '' '' @
         names ! i @ (if unat time div unat c \<noteq> 1 then ''s'' else []) @ rest, fp'))"
proof -
  let ?m = "ucast (time div c) :: c_int"
  note f = unitMag_nat [OF c(2) q]
  have z: "?m = 0 \<longleftrightarrow> unat time div unat c = 0"
    using f(2) by (simp add: word_uint_eq_iff)
  have o: "?m = 1 \<longleftrightarrow> unat time div unat c = 1"
    using f(2) by (simp add: word_uint_eq_iff)
  have p: "printf_d ?m = string_of_nat (unat time div unat c)"
    by (rule printf_d_nonneg [OF f(1)])
  show ?thesis
    by (simp add: loop_step [OF i] c(1) Let_def z o p split: prod.splits)
qed

text \<open>The loop from each index on, last index first.\<close>

lemma loop_from_4:
  assumes "unat t < 2147483648"
  shows "print_human_loop (Suc (Suc (Suc (Suc 0)))) t fp =
         shown_text fp (zip (decompose (unat t) [1]) [''millisecond''])"
proof -
  have q: "unat t div unat (1 :: c_ulong) < 2147483648" using assms by simp
  show ?thesis
    by (subst loop_step_nat [OF _ conv_ulong(5) _ q])
       (simp_all add: loop_end shown_text_Cons shown_text_Nil names_nth)
qed

lemma loop_from_3:
  assumes "unat t div 1000 < 2147483648"
  shows "print_human_loop (Suc (Suc (Suc 0))) t fp =
         shown_text fp (zip (decompose (unat t) [1000, 1]) [''second'', ''millisecond''])"
proof -
  have q: "unat t div unat (1000 :: c_ulong) < 2147483648" using assms by simp
  have r: "unat (t mod 1000) < 2147483648"
    by (simp add: unat_mod)
  show ?thesis
    by (subst loop_step_nat [OF _ conv_ulong(4) _ q])
       (simp_all add: loop_from_4 [OF r] shown_text_Cons names_nth unat_mod)
qed

lemma loop_from_2:
  assumes "unat t div 60000 < 2147483648"
  shows "print_human_loop (Suc (Suc 0)) t fp =
         shown_text fp (zip (decompose (unat t) [60000, 1000, 1])
                            [''minute'', ''second'', ''millisecond''])"
proof -
  have q: "unat t div unat (60000 :: c_ulong) < 2147483648" using assms by simp
  have "unat (t mod 60000) < 60000" by (simp add: unat_mod)
  then have r: "unat (t mod 60000) div 1000 < 2147483648" by simp
  show ?thesis
    by (subst loop_step_nat [OF _ conv_ulong(3) _ q])
       (simp_all add: loop_from_3 [OF r] shown_text_Cons names_nth unat_mod)
qed

lemma loop_from_1:
  assumes "unat t div 3600000 < 2147483648"
  shows "print_human_loop (Suc 0) t fp =
         shown_text fp (zip (decompose (unat t) [3600000, 60000, 1000, 1])
                            [''hour'', ''minute'', ''second'', ''millisecond''])"
proof -
  have q: "unat t div unat (3600000 :: c_ulong) < 2147483648" using assms by simp
  have "unat (t mod 3600000) < 3600000" by (simp add: unat_mod)
  then have r: "unat (t mod 3600000) div 60000 < 2147483648" by simp
  show ?thesis
    by (subst loop_step_nat [OF _ conv_ulong(2) _ q])
       (simp_all add: loop_from_2 [OF r] shown_text_Cons names_nth unat_mod)
qed

lemma loop_from_0:
  assumes "unat t div 86400000 < 2147483648"
  shows "print_human_loop 0 t fp =
         shown_text fp (zip (decompose (unat t) [86400000, 3600000, 60000, 1000, 1])
                            [''day'', ''hour'', ''minute'', ''second'', ''millisecond''])"
proof -
  have q: "unat t div unat (86400000 :: c_ulong) < 2147483648" using assms by simp
  have "unat (t mod 86400000) < 86400000" by (simp add: unat_mod)
  then have r: "unat (t mod 86400000) div 3600000 < 2147483648" by simp
  show ?thesis
    by (subst loop_step_nat [OF _ conv_ulong(1) _ q])
       (simp_all add: loop_from_1 [OF r] shown_text_Cons names_nth unat_mod)
qed

text \<open>
  Whenever the number of days fits the \<open>int\<close> variable \<open>unitMag\<close>, that is for every
  duration below \<open>2 ^ 31\<close> days, the program prints the line the specification describes.
\<close>

lemma print_human_time_in_range:
  assumes "unat t div 86400000 < 2147483648"
  shows "print_human_time t = [Print_stdout (human_readable_spec (unat t))]"
  by (simp add: print_human_time_def loop_from_0 [OF assms] human_readable_spec_def
        shown_text_def Let_def names_nth)

lemma print_human_time_in_range_example:
  "print_human_time 7000 = [Print_stdout (human_readable_spec 7000)]"
  using print_human_time_in_range [of 7000] by simp

text \<open>The three examples of the specification, on the code and on its wording.\<close>

lemma human_time_examples:
  "print_human_time 90061000 = [Print_stdout ''1 day, 1 hour, 1 minute, 1 second\<newline>'']"
  "print_human_time 0 = [Print_stdout ''0 milliseconds\<newline>'']"
  "print_human_time 2000 = [Print_stdout ''2 seconds\<newline>'']"
  by code_simp+

lemma human_readable_spec_examples:
  "human_readable_spec 90061000 = ''1 day, 1 hour, 1 minute, 1 second\<newline>''"
  "human_readable_spec 0 = ''0 milliseconds\<newline>''"
  "human_readable_spec 2000 = ''2 seconds\<newline>''"
  by (simp_all add: human_readable_spec_def component_text_def string_of_nat.simps
        digit_char_def)

lemma string_of_nat_2147483648: "string_of_nat 2147483648 = ''2147483648''"
  by (simp add: string_of_nat.simps digit_char_def)

lemma string_of_nat_4294967296: "string_of_nat 4294967296 = ''4294967296''"
  by (simp add: string_of_nat.simps digit_char_def)

lemma long_idle_query:
  "get_x_idletime
     \<lparr>XOpenDisplay = Some (sample_display\<lparr>XScreenSaverQueryInfo := Some 185542587187200000,
                                          VendorRelease := 12000000\<rparr>),
      XScreenSaverAllocInfo = True\<rparr>
   = ([Open_display True, Alloc_info True, Free_info, Close_display],
      Some 185542587187200000)"
  by (simp add: get_x_idletime_def sample_display_def)

text \<open>
  \<^bold>\<open>Claim C6\<close> holds of the specification's wording and fails on the code for durations
  of \<open>2 ^ 31\<close> days or more, because the 64-bit quotient is stored in the \<open>int\<close> variable
  \<open>unitMag\<close>. At 185542587187200000 milliseconds, which is \<open>2 ^ 31\<close> days, the program
  prints a negative number of days where the claim gives 2147483648 days; at
  371085174374400000 milliseconds, which is \<open>2 ^ 32\<close> days, the days component is taken
  for zero and the program prints \<open>0 milliseconds\<close>. The first value reaches
  \<open>print_human_time\<close> from \<open>main\<close> with the option \<open>-H\<close> when the server reports it.
\<close>

theorem human_time_narrowing:
  "print_human_time 185542587187200000 = [Print_stdout ''-2147483648 days\<newline>'']
   \<and> human_readable_spec 185542587187200000 = ''2147483648 days\<newline>''
   \<and> print_human_time 371085174374400000 = [Print_stdout ''0 milliseconds\<newline>'']
   \<and> human_readable_spec 371085174374400000 = ''4294967296 days\<newline>''
   \<and> main \<lparr>XOpenDisplay = Some (sample_display\<lparr>XScreenSaverQueryInfo := Some 185542587187200000,
                                                 VendorRelease := 12000000\<rparr>),
             XScreenSaverAllocInfo = True\<rparr>
           [''xprintidle'', ''-H'']
       = Some ([Open_display True, Alloc_info True, Free_info, Close_display,
                Print_stdout ''-2147483648 days\<newline>''], 0)"
proof -
  have a: "print_human_time 185542587187200000 = [Print_stdout ''-2147483648 days\<newline>'']"
    by (simp add: print_human_time_def loop_step loop_end conv_ulong names_nth printf_d_def
          string_of_nat_2147483648 Let_def)
  have b: "human_readable_spec 185542587187200000 = ''2147483648 days\<newline>''"
    by (simp add: human_readable_spec_def component_text_def string_of_nat_2147483648)
  have c: "print_human_time 371085174374400000 = [Print_stdout ''0 milliseconds\<newline>'']"
    by (simp add: print_human_time_def loop_step loop_end conv_ulong names_nth printf_d_def
          Let_def)
  have d: "human_readable_spec 371085174374400000 = ''4294967296 days\<newline>''"
    by (simp add: human_readable_spec_def component_text_def string_of_nat_4294967296)
  have e: "main \<lparr>XOpenDisplay = Some (sample_display\<lparr>XScreenSaverQueryInfo := Some 185542587187200000,
                                                 VendorRelease := 12000000\<rparr>),
             XScreenSaverAllocInfo = True\<rparr>
           [''xprintidle'', ''-H'']
       = Some ([Open_display True, Alloc_info True, Free_info, Close_display,
                Print_stdout ''-2147483648 days\<newline>''], 0)"
    by (simp add: main_def main_query_def long_idle_query a EXIT_SUCCESS_def)
  show ?thesis using a b c d e by blast
qed

end
